theory Spec2Isabelle
  imports Complex_Main "HOL-Library.Multiset" "HOL-Library.Char_ord" "HOL-Library.List_Lexorder"
begin

section \<open>Numeric cells\<close>

text \<open>
  The columns \<open>price\<close> and \<open>rating\<close> of \<open>booking.py\<close> hold binary64 numbers after
  \<open>pd.to_numeric\<close>. A cell is a finite number, one of the two infinities, or NaN, which is
  also the missing-value marker of the data-table library. A finite number is represented
  by the exact rational the text denotes: rounding to 53 bits and the range of binary64
  are outside the model.
\<close>

datatype fval = Num rat | PInf | NInf | NaN

text \<open>The comparisons of IEEE 754: every comparison with NaN is false.\<close>

fun fle :: "fval \<Rightarrow> fval \<Rightarrow> bool" where
  "fle NaN _ = False"
| "fle _ NaN = False"
| "fle NInf _ = True"
| "fle _ PInf = True"
| "fle (Num a) (Num b) = (a \<le> b)"
| "fle PInf _ = False"
| "fle _ NInf = False"

fun flt :: "fval \<Rightarrow> fval \<Rightarrow> bool" where
  "flt NaN _ = False"
| "flt _ NaN = False"
| "flt PInf _ = False"
| "flt _ NInf = False"
| "flt (Num a) (Num b) = (a < b)"
| "flt NInf _ = True"
| "flt _ PInf = True"

definition fge :: "fval \<Rightarrow> fval \<Rightarrow> bool" where
  "fge a b = fle b a"

fun fadd :: "fval \<Rightarrow> fval \<Rightarrow> fval" where
  "fadd NaN _ = NaN"
| "fadd _ NaN = NaN"
| "fadd PInf NInf = NaN"
| "fadd NInf PInf = NaN"
| "fadd PInf _ = PInf"
| "fadd _ PInf = PInf"
| "fadd NInf _ = NInf"
| "fadd _ NInf = NInf"
| "fadd (Num a) (Num b) = Num (a + b)"

text \<open>Division of a sum by a positive count.\<close>

fun fdiv_count :: "fval \<Rightarrow> nat \<Rightarrow> fval" where
  "fdiv_count (Num a) n = Num (a / of_nat n)"
| "fdiv_count v n = v"

definition fsum :: "fval list \<Rightarrow> fval" where
  "fsum vs = foldl fadd (Num 0) vs"

section \<open>Text cells\<close>

text \<open>
  Text is a \<open>string\<close> of 8-bit characters, and the model covers ASCII text: the digits
  of the pattern \<open>\d\<close> and the white space of \<open>str.strip\<close> are the ASCII ones, and a
  character outside ASCII is neither (Python also counts the digits and spaces of other
  scripts).
\<close>

definition digit_of :: "char \<Rightarrow> nat option" where
  "digit_of c = map_of
     [(CHR ''0'', 0), (CHR ''1'', 1), (CHR ''2'', 2), (CHR ''3'', 3), (CHR ''4'', 4),
      (CHR ''5'', 5), (CHR ''6'', 6), (CHR ''7'', 7), (CHR ''8'', 8), (CHR ''9'', 9)] c"

definition is_digit :: "char \<Rightarrow> bool" where
  "is_digit c = (digit_of c \<noteq> None)"

definition digit_val :: "char \<Rightarrow> nat" where
  "digit_val c = (case digit_of c of Some d \<Rightarrow> d | None \<Rightarrow> 0)"

definition digits_val :: "string \<Rightarrow> nat" where
  "digits_val ds = foldl (\<lambda>a c. 10 * a + digit_val c) 0 ds"

text \<open>\<open>str.isspace\<close> of Python on ASCII: tab, the line breaks, the separators 28 to 31, space.\<close>

definition py_isspace :: "char \<Rightarrow> bool" where
  "py_isspace c = (c \<in> set [CHR 0x09, CHR 0x0A, CHR 0x0B, CHR 0x0C, CHR 0x0D,
                              CHR 0x1C, CHR 0x1D, CHR 0x1E, CHR 0x1F, CHR 0x20])"

text \<open>The white space the number parser skips: space, tab, and the four line breaks.\<close>

definition isspace_ascii :: "char \<Rightarrow> bool" where
  "isspace_ascii c = (c \<in> set [CHR 0x20, CHR 0x09, CHR 0x0A, CHR 0x0B, CHR 0x0C, CHR 0x0D])"

definition str_strip :: "string \<Rightarrow> string" where
  "str_strip s = rev (dropWhile py_isspace (rev (dropWhile py_isspace s)))"

fun startswith :: "string \<Rightarrow> string \<Rightarrow> bool" where
  "startswith s [] = True"
| "startswith [] (p # ps) = False"
| "startswith (c # cs) (p # ps) = (c = p \<and> startswith cs ps)"

text \<open>
  \<open>str.replace(pat, repl)\<close> with a literal, non-empty pattern: every occurrence, left to
  right, without overlap.
\<close>

function str_replace :: "string \<Rightarrow> string \<Rightarrow> string \<Rightarrow> string" where
  "str_replace pat repl [] = []"
| "str_replace pat repl (c # cs) =
     (if pat \<noteq> [] \<and> startswith (c # cs) pat
      then repl @ str_replace pat repl (drop (length pat) (c # cs))
      else c # str_replace pat repl cs)"
  by pat_completeness auto
termination
  by (relation "measure (\<lambda>(pat, repl, s). length s)") auto

definition ascii_lower :: "char \<Rightarrow> char" where
  "ascii_lower c =
     (case map_of (zip ''ABCDEFGHIJKLMNOPQRSTUVWXYZ'' ''abcdefghijklmnopqrstuvwxyz'') c of
        Some l \<Rightarrow> l
      | None \<Rightarrow> c)"

section \<open>pd.to_numeric on text, errors='coerce'\<close>

text \<open>
  The library's parser reads: optional white space, an optional sign, digits, an optional
  point and digits (one digit at least in all), an optional exponent \<open>e\<close> or \<open>E\<close> with
  an optional sign and one to seventeen digits, optional white space, and the end of the
  text. Anything else is a parse error, unless the whole text is an infinity literal.
\<close>

definition take_sign :: "string \<Rightarrow> bool \<times> string" where
  "take_sign s =
     (case s of
        [] \<Rightarrow> (False, s)
      | c # r \<Rightarrow> if c = CHR ''-'' then (True, r) else if c = CHR ''+'' then (False, r) else (False, s))"

definition take_fraction :: "string \<Rightarrow> string \<times> string" where
  "take_fraction s =
     (case s of
        [] \<Rightarrow> ([], s)
      | c # r \<Rightarrow> if c = CHR ''.'' then (takeWhile is_digit r, dropWhile is_digit r) else ([], s))"

text \<open>
  The exponent and the text left after it. An exponent mark without digits is put back,
  so the text left starts with the mark or with its sign, and the parse fails at the end
  test.
\<close>

definition take_exponent :: "string \<Rightarrow> int \<times> string" where
  "take_exponent s =
     (case s of
        [] \<Rightarrow> (0, s)
      | c # r \<Rightarrow>
          if c = CHR ''e'' \<or> c = CHR ''E'' then
            (let (neg, r2) = take_sign r;
                 ed = take 17 (takeWhile is_digit r2)
             in if ed = [] then (0, if r2 = r then s else r)
                else ((if neg then - int (digits_val ed) else int (digits_val ed)),
                      drop (length ed) r2))
          else (0, s))"

definition scale10 :: "rat \<Rightarrow> int \<Rightarrow> rat" where
  "scale10 m e = (if 0 \<le> e then m * 10 ^ nat e else m / 10 ^ nat (- e))"

definition to_double :: "string \<Rightarrow> rat option" where
  "to_double s =
     (let (neg, s2) = take_sign (dropWhile isspace_ascii s);
          ip = takeWhile is_digit s2;
          (fp, s4) = take_fraction (dropWhile is_digit s2)
      in if ip = [] \<and> fp = [] then None
         else
           (let m = of_nat (digits_val (ip @ fp)) / 10 ^ length fp;
                (e, s5) = take_exponent s4
            in if dropWhile isspace_ascii s5 = []
               then Some (scale10 (if neg then - m else m) e)
               else None))"

definition to_numeric :: "string \<Rightarrow> fval" where
  "to_numeric s =
     (case to_double s of
        Some q \<Rightarrow> Num q
      | None \<Rightarrow>
          (let l = map ascii_lower s
           in if l \<in> set [''inf'', ''+inf'', ''infinity'', ''+infinity''] then PInf
              else if l \<in> set [''-inf'', ''-infinity''] then NInf
              else NaN))"

section \<open>Series.str.extract with the pattern of line 24\<close>

text \<open>
  A match of \<open>\d+\.\d+\<close> at the start of the text: the longest run of digits, a point,
  the longest run of digits. A shorter first run is followed by a digit, not by a point,
  so backtracking finds nothing more.
\<close>

definition match_here :: "string \<Rightarrow> string option" where
  "match_here s =
     (let d1 = takeWhile is_digit s
      in if d1 = [] then None
         else (case dropWhile is_digit s of
                 [] \<Rightarrow> None
               | c # r \<Rightarrow>
                   (let d2 = takeWhile is_digit r
                    in if c = CHR ''.'' \<and> d2 \<noteq> [] then Some (d1 @ CHR ''.'' # d2) else None)))"

text \<open>The first match, scanning the start positions from the left.\<close>

fun str_extract :: "string \<Rightarrow> string option" where
  "str_extract [] = None"
| "str_extract (c # cs) =
     (case match_here (c # cs) of Some m \<Rightarrow> Some m | None \<Rightarrow> str_extract cs)"

section \<open>The table\<close>



record csv_row =
  csv_name :: "string option"
  csv_location :: "string option"
  csv_price :: "string option"
  csv_rating :: "string option"

record hotel =
  name :: "string option"
  location :: "string option"
  price :: fval
  rating :: fval

text \<open>Lines 17 to 20: the price column.\<close>

definition clean_price :: "string option \<Rightarrow> fval" where
  "clean_price cell =
     (case cell of
        None \<Rightarrow> NaN
      | Some s \<Rightarrow> to_numeric (str_strip (str_replace '','' [] (str_replace ''EGP'' [] s))))"

text \<open>Lines 23 to 26: the rating column.\<close>

definition clean_rating :: "string option \<Rightarrow> fval" where
  "clean_rating cell =
     (case cell of
        None \<Rightarrow> NaN
      | Some s \<Rightarrow> (case str_extract s of None \<Rightarrow> NaN | Some m \<Rightarrow> to_numeric m))"

definition convert_row :: "csv_row \<Rightarrow> hotel" where
  "convert_row r =
     \<lparr>name = csv_name r, location = csv_location r,
      price = clean_price (csv_price r), rating = clean_rating (csv_rating r)\<rparr>"

text \<open>Line 29: \<open>dropna(subset=['price', 'rating'])\<close>. An infinity is not missing.\<close>

definition dropna :: "hotel list \<Rightarrow> hotel list" where
  "dropna df = filter (\<lambda>h. price h \<noteq> NaN \<and> rating h \<noteq> NaN) df"

definition load_hotels :: "csv_row list \<Rightarrow> hotel list" where
  "load_hotels rows = dropna (map convert_row rows)"

section \<open>The sidebar controls and the filter\<close>

text \<open>
  The values the three widgets of lines 35 to 53 return: two ranges of floating-point
  numbers and the list of selected locations.
\<close>

record controls =
  min_price :: fval
  max_price :: fval
  min_rating :: fval
  max_rating :: fval
  selected_locations :: "string option list"

text \<open>
  Lines 56 to 62: the mask, and the rows it keeps. \<open>isin\<close> compares cells for equality;
  a missing location is in the selection when the selection holds the missing marker.
\<close>

definition filter_mask :: "controls \<Rightarrow> hotel \<Rightarrow> bool" where
  "filter_mask c h =
     (fge (price h) (min_price c) \<and>
      fle (price h) (max_price c) \<and>
      fge (rating h) (min_rating c) \<and>
      fle (rating h) (max_rating c) \<and>
      location h \<in> set (selected_locations c))"

definition apply_filters :: "controls \<Rightarrow> hotel list \<Rightarrow> hotel list" where
  "apply_filters c df = filter (filter_mask c) df"

section \<open>Sorting, means and groups\<close>

text \<open>
  \<open>sort_values(by="rating", ascending=False)\<close>: the rows with a rating in descending order,
  then the rows whose rating is NaN. The library's default algorithm does not fix the
  order of rows with equal ratings; the model keeps them in table order.
\<close>

fun insert_desc :: "hotel \<Rightarrow> hotel list \<Rightarrow> hotel list" where
  "insert_desc x [] = [x]"
| "insert_desc x (y # ys) =
     (if flt (rating x) (rating y) then y # insert_desc x ys else x # y # ys)"

definition sort_values_rating_desc :: "hotel list \<Rightarrow> hotel list" where
  "sort_values_rating_desc df =
     foldr insert_desc (filter (\<lambda>h. rating h \<noteq> NaN) df) [] @ filter (\<lambda>h. rating h = NaN) df"

definition head :: "nat \<Rightarrow> 'a list \<Rightarrow> 'a list" where
  "head n df = take n df"

text \<open>
  \<open>Series.mean()\<close>: NaN cells are skipped; with no cell left the result is NaN, set by the
  library's branch for a count of zero, and no division takes place.
\<close>

definition series_mean :: "fval list \<Rightarrow> fval" where
  "series_mean vs =
     (let xs = filter (\<lambda>v. v \<noteq> NaN) vs
      in if length xs > 0 then fdiv_count (fsum xs) (length xs) else NaN)"

text \<open>
  \<open>groupby("name")["price"].mean().reset_index()\<close>: one row per name that occurs, in
  ascending order of the names; rows without a name belong to no group.
\<close>

definition group_keys :: "hotel list \<Rightarrow> string list" where
  "group_keys df = sort (remdups (concat (map (\<lambda>h. case name h of None \<Rightarrow> [] | Some n \<Rightarrow> [n]) df)))"

definition groupby_name_price_mean :: "hotel list \<Rightarrow> (string \<times> fval) list" where
  "groupby_name_price_mean df =
     map (\<lambda>n. (n, series_mean (map price (filter (\<lambda>h. name h = Some n) df)))) (group_keys df)"

section \<open>Chart specifications\<close>

datatype chart_kind = Bar | Histogram | Scatter | Line

datatype category_order = Trace | TotalAscending

datatype cell = Txt "string option" | Val fval

text \<open>
  What a chart call is given: its kind and title, one cell per data point for each of
  the columns it maps, the number of bins of a histogram, and the ordering of the
  categories on the x axis (\<open>Trace\<close>, the order of the data, unless the layout sets one).
\<close>

record chart =
  kind :: chart_kind
  title :: string
  xdata :: "cell list"
  ydata :: "cell list"
  textdata :: "cell list"
  sizedata :: "cell list"
  colordata :: "cell list"
  nbins :: "nat option"
  categoryorder :: category_order


definition px_bar :: "string \<Rightarrow> cell list \<Rightarrow> cell list \<Rightarrow> cell list \<Rightarrow> chart" where
  "px_bar t xs ys txt =
     \<lparr>kind = Bar, title = t, xdata = xs, ydata = ys, textdata = txt, sizedata = [],
      colordata = [], nbins = None, categoryorder = Trace\<rparr>"

text \<open>Lines 71 to 78: analysis 1, on \<open>top_rated\<close>.\<close>

definition fig_top_rated :: "hotel list \<Rightarrow> chart" where
  "fig_top_rated df =
     px_bar ''Top-Rated Hotels'' (map (\<lambda>h. Txt (name h)) df) (map (\<lambda>h. Val (rating h)) df)
       (map (\<lambda>h. Val (rating h)) df)"

text \<open>Lines 84 to 90: analysis 2.\<close>

definition fig_price_dist :: "hotel list \<Rightarrow> chart" where
  "fig_price_dist df =
     \<lparr>kind = Histogram, title = ''Price Distribution of Hotels'',
      xdata = map (\<lambda>h. Val (price h)) df, ydata = [], textdata = [], sizedata = [],
      colordata = [], nbins = Some 10, categoryorder = Trace\<rparr>"

text \<open>Lines 95 to 104: analysis 3.\<close>

definition fig_rating_vs_price :: "hotel list \<Rightarrow> chart" where
  "fig_rating_vs_price df =
     \<lparr>kind = Scatter, title = ''Rating vs. Price Analysis'',
      xdata = map (\<lambda>h. Val (rating h)) df, ydata = map (\<lambda>h. Val (price h)) df,
      textdata = [], sizedata = map (\<lambda>h. Val (price h)) df,
      colordata = map (\<lambda>h. Txt (name h)) df, nbins = None, categoryorder = Trace\<rparr>"

text \<open>Lines 110 to 117: analysis 4, on \<open>avg_price_by_hotel\<close>.\<close>

definition fig_avg_price :: "(string \<times> fval) list \<Rightarrow> chart" where
  "fig_avg_price g =
     px_bar ''Average Price by Hotel'' (map (\<lambda>(n, m). Txt (Some n)) g) (map (\<lambda>(n, m). Val m) g)
       (map (\<lambda>(n, m). Val m) g)"

text \<open>Lines 125 to 132: analysis 5, on \<open>top_budget_rated\<close>.\<close>

definition fig_budget_rated :: "hotel list \<Rightarrow> chart" where
  "fig_budget_rated df =
     px_bar ''Top-Rated Budget Hotels'' (map (\<lambda>h. Txt (name h)) df)
       (map (\<lambda>h. Val (rating h)) df) (map (\<lambda>h. Val (rating h)) df)"

text \<open>Lines 138 to 154: the two line plots.\<close>

definition sns_lineplot :: "string \<Rightarrow> cell list \<Rightarrow> cell list \<Rightarrow> chart" where
  "sns_lineplot t xs ys =
     \<lparr>kind = Line, title = t, xdata = xs, ydata = ys, textdata = [], sizedata = [],
      colordata = [], nbins = None, categoryorder = Trace\<rparr>"

definition fig1 :: "hotel list \<Rightarrow> chart" where
  "fig1 df =
     sns_lineplot ''Top Hotels Positive Reviews'' (map (\<lambda>h. Txt (name h)) df)
       (map (\<lambda>h. Val (rating h)) df)"

definition fig2 :: "hotel list \<Rightarrow> chart" where
  "fig2 df =
     sns_lineplot ''Price vs. Value'' (map (\<lambda>h. Txt (name h)) df) (map (\<lambda>h. Val (price h)) df)"

text \<open>
  Lines 158 to 173: the last bar chart, on the filtered table sorted by rating, with the
  names as bar texts; \<open>update_layout\<close> then sets \<open>categoryorder\<close> to \<open>'total ascending'\<close>.
\<close>

definition fig_price :: "hotel list \<Rightarrow> chart" where
  "fig_price df =
     (let sorted_df = sort_values_rating_desc df
      in (px_bar ''Hotel Ratings in Hurghada'' (map (\<lambda>h. Txt (name h)) sorted_df)
            (map (\<lambda>h. Val (rating h)) sorted_df) (map (\<lambda>h. Txt (name h)) sorted_df))
         \<lparr>categoryorder := TotalAscending\<rparr>)"

text \<open>
  The categories of a bar chart from left to right, as the charting library lays them
  out: in the order of their first data point under \<open>Trace\<close>; by the sum of their y
  values, smallest first, under \<open>TotalAscending\<close>.
\<close>

definition first_seen :: "'a list \<Rightarrow> 'a list" where
  "first_seen xs = rev (remdups (rev xs))"

definition category_total :: "chart \<Rightarrow> cell \<Rightarrow> fval" where
  "category_total ch c =
     fsum (concat (map (\<lambda>(x, y). case y of Val v \<Rightarrow> if x = c then [v] else [] | Txt t \<Rightarrow> [])
                       (zip (xdata ch) (ydata ch))))"

fun insert_asc :: "cell \<times> fval \<Rightarrow> (cell \<times> fval) list \<Rightarrow> (cell \<times> fval) list" where
  "insert_asc x [] = [x]"
| "insert_asc x (y # ys) =
     (if flt (snd y) (snd x) then y # insert_asc x ys else x # y # ys)"

definition shown_categories :: "chart \<Rightarrow> cell list" where
  "shown_categories ch =
     (let cats = first_seen (xdata ch)
      in case categoryorder ch of
           Trace \<Rightarrow> cats
         | TotalAscending \<Rightarrow>
             map fst (foldr insert_asc (map (\<lambda>c. (c, category_total ch c)) cats) []))"

section \<open>The script after cleaning\<close>

text \<open>
  The variables of the script that hold tables, and the charts handed to the page in
  order. Every statement below line 55 is a function from the variables before it to
  the variables after it.
\<close>

record env =
  hotels_df :: "hotel list"
  filtered_df :: "hotel list"
  top_rated :: "hotel list"
  avg_price_by_hotel :: "(string \<times> fval) list"
  budget_hotels :: "hotel list"
  top_budget_rated :: "hotel list"
  rendered :: "chart list"

definition startup :: "csv_row list \<Rightarrow> env" where
  "startup rows =
     \<lparr>hotels_df = load_hotels rows, filtered_df = [], top_rated = [], avg_price_by_hotel = [],
      budget_hotels = [], top_budget_rated = [], rendered = []\<rparr>"

definition run_filters :: "controls \<Rightarrow> env \<Rightarrow> env" where
  "run_filters c e = e\<lparr>filtered_df := apply_filters c (hotels_df e)\<rparr>"

definition analysis1 :: "env \<Rightarrow> env" where
  "analysis1 e =
     (let t = head 10 (sort_values_rating_desc (filtered_df e))
      in e\<lparr>top_rated := t, rendered := rendered e @ [fig_top_rated t]\<rparr>)"

definition analysis2 :: "env \<Rightarrow> env" where
  "analysis2 e = e\<lparr>rendered := rendered e @ [fig_price_dist (filtered_df e)]\<rparr>"

definition analysis3 :: "env \<Rightarrow> env" where
  "analysis3 e = e\<lparr>rendered := rendered e @ [fig_rating_vs_price (filtered_df e)]\<rparr>"

definition analysis4 :: "env \<Rightarrow> env" where
  "analysis4 e =
     (let g = groupby_name_price_mean (filtered_df e)
      in e\<lparr>avg_price_by_hotel := g, rendered := rendered e @ [fig_avg_price g]\<rparr>)"

text \<open>Line 123: the rows priced below the mean price of the filtered table.\<close>

definition select_budget :: "hotel list \<Rightarrow> hotel list" where
  "select_budget df = filter (\<lambda>h. flt (price h) (series_mean (map price df))) df"

definition analysis5 :: "env \<Rightarrow> env" where
  "analysis5 e =
     (let b = select_budget (filtered_df e);
          t = head 10 (sort_values_rating_desc b)
      in e\<lparr>budget_hotels := b, top_budget_rated := t,
            rendered := rendered e @ [fig_budget_rated t]\<rparr>)"

definition seaborn1 :: "env \<Rightarrow> env" where
  "seaborn1 e = e\<lparr>rendered := rendered e @ [fig1 (filtered_df e)]\<rparr>"

definition seaborn2 :: "env \<Rightarrow> env" where
  "seaborn2 e = e\<lparr>rendered := rendered e @ [fig2 (filtered_df e)]\<rparr>"

definition analysis6 :: "env \<Rightarrow> env" where
  "analysis6 e = e\<lparr>rendered := rendered e @ [fig_price (filtered_df e)]\<rparr>"

definition dashboard :: "controls \<Rightarrow> env \<Rightarrow> env" where
  "dashboard c e =
     analysis6 (seaborn2 (seaborn1 (analysis5 (analysis4 (analysis3 (analysis2 (analysis1
       (run_filters c e))))))))"

section \<open>Notions used to state the properties\<close>

text \<open>Descending order of ratings with the missing ones last: \<open>a\<close> may stand before \<open>b\<close>.\<close>

fun desc_order :: "fval \<Rightarrow> fval \<Rightarrow> bool" where
  "desc_order a NaN = True"
| "desc_order NaN b = False"
| "desc_order a b = fle b a"

text \<open>A digit, a point and a digit somewhere in the text.\<close>

fun has_decimal :: "string \<Rightarrow> bool" where
  "has_decimal (a # b # c # r) =
     ((is_digit a \<and> b = CHR ''.'' \<and> is_digit c) \<or> has_decimal (b # c # r))"
| "has_decimal s = False"

definition all_digits :: "string \<Rightarrow> bool" where
  "all_digits ds = (ds \<noteq> [] \<and> list_all is_digit ds)"





section \<open>The scenario of the specification\<close>

text \<open>
  Two rows, A in Cairo at 1,000 EGP rated 7.0 and B in Giza at 500 EGP rated 9.0, and
  controls that select prices from 0 to 600, every rating, and both locations.
\<close>

definition example_rows :: "csv_row list" where
  "example_rows =
     [\<lparr>csv_name = Some ''A'', csv_location = Some ''Cairo'', csv_price = Some ''1,000 EGP'',
       csv_rating = Some ''7.0 Good''\<rparr>,
      \<lparr>csv_name = Some ''B'', csv_location = Some ''Giza'', csv_price = Some ''500 EGP'',
       csv_rating = Some ''9.0 Great''\<rparr>]"

definition hotel_A :: hotel where
  "hotel_A = \<lparr>name = Some ''A'', location = Some ''Cairo'', price = Num 1000, rating = Num 7\<rparr>"

definition hotel_B :: hotel where
  "hotel_B = \<lparr>name = Some ''B'', location = Some ''Giza'', price = Num 500, rating = Num 9\<rparr>"

definition example_controls :: controls where
  "example_controls =
     \<lparr>min_price = Num 0, max_price = Num 600, min_rating = Num 0, max_rating = Num 10,
      selected_locations = [Some ''Cairo'', Some ''Giza'']\<rparr>"

definition all_controls :: controls where
  "all_controls = example_controls\<lparr>max_price := Num 1000\<rparr>"


definition excellent_row :: csv_row where
  "excellent_row =
     \<lparr>csv_name = Some ''C'', csv_location = Some ''Luxor'', csv_price = Some ''1,234 EGP'',
      csv_rating = Some ''Excellent''\<rparr>"

definition nine_good_row :: csv_row where
  "nine_good_row =
     \<lparr>csv_name = Some ''C'', csv_location = Some ''Luxor'', csv_price = Some ''1,234 EGP'',
      csv_rating = Some ''9 Good''\<rparr>"








section \<open>The scenario, evaluated\<close>

lemma example_load: "load_hotels example_rows = [hotel_A, hotel_B]"
  by code_simp

lemma example_filtered: "apply_filters example_controls [hotel_A, hotel_B] = [hotel_B]"
  by code_simp

section \<open>The filter\<close>

text \<open>
  Claim C1. For every base table and every choice of control values, every row of the
  filter's output has its price between the chosen minimum and maximum, both included,
  its rating between the chosen minimum and maximum, both included, and its location
  among the selected ones; and the output has no more rows than the input.
\<close>

theorem filter_output_within_controls:
  "(\<forall>h \<in> set (apply_filters c df).
      fle (min_price c) (price h) \<and> fle (price h) (max_price c) \<and>
      fle (min_rating c) (rating h) \<and> fle (rating h) (max_rating c) \<and>
      location h \<in> set (selected_locations c)) \<and>
   length (apply_filters c df) \<le> length df"
  by (simp add: apply_filters_def filter_mask_def fge_def)

theorem filter_output_within_controls_witness:
  "hotel_B \<in> set (apply_filters example_controls (load_hotels example_rows)) \<and>
   fle (min_price example_controls) (price hotel_B) \<and>
   fle (price hotel_B) (max_price example_controls) \<and>
   fle (min_rating example_controls) (rating hotel_B) \<and>
   fle (rating hotel_B) (max_rating example_controls) \<and>
   location hotel_B \<in> set (selected_locations example_controls) \<and>
   length (apply_filters example_controls (load_hotels example_rows))
     \<le> length (load_hotels example_rows)"
proof -
  have mem: "hotel_B \<in> set (apply_filters example_controls (load_hotels example_rows))"
    by (simp add: example_load example_filtered)
  from filter_output_within_controls [of example_controls "load_hotels example_rows"] mem
  show ?thesis by blast
qed

text \<open>
  Claim C7. The filter is idempotent: for every base table and every fixed choice of
  control values, filtering the output of the filter again gives the same rows, as a
  table and so as a set.
\<close>

theorem filter_idempotent:
  "apply_filters c (apply_filters c df) = apply_filters c df \<and>
   set (apply_filters c (apply_filters c df)) = set (apply_filters c df)"
  by (simp add: apply_filters_def)

theorem filter_idempotent_witness:
  "apply_filters example_controls (apply_filters example_controls [hotel_A, hotel_B]) = [hotel_B]"
proof -
  have "apply_filters example_controls (apply_filters example_controls [hotel_A, hotel_B])
      = apply_filters example_controls [hotel_A, hotel_B]"
    using filter_idempotent [of example_controls "[hotel_A, hotel_B]"] by (rule conjunct1)
  then show ?thesis by (simp only: example_filtered)
qed

section \<open>Digits, replacement, stripping and parsing\<close>

lemma is_digit_iff: "is_digit c \<longleftrightarrow> c \<in> set ''0123456789''"
  by (simp add: is_digit_def digit_of_def)

lemma digit_not_special:
  assumes "is_digit c"
  shows "\<not> isspace_ascii c" "\<not> py_isspace c" "c \<noteq> CHR ''-''" "c \<noteq> CHR ''+''"
    "c \<noteq> CHR ''.''" "c \<noteq> CHR '',''" "c \<noteq> CHR ''E''" "c \<noteq> CHR ''e''"
  using assms by (auto simp: is_digit_iff isspace_ascii_def py_isspace_def)

lemma all_digits_takeWhile: "list_all is_digit ds \<Longrightarrow> takeWhile is_digit (ds @ r) = ds @ takeWhile is_digit r"
  by (induction ds) auto

lemma all_digits_dropWhile: "list_all is_digit ds \<Longrightarrow> dropWhile is_digit (ds @ r) = dropWhile is_digit r"
  by (induction ds) auto

lemma to_double_decimal:
  assumes "all_digits d1" "list_all is_digit d2"
  shows "to_double (d1 @ CHR ''.'' # d2) = Some (of_nat (digits_val (d1 @ d2)) / 10 ^ length d2)"
proof -
  obtain c r where d1: "d1 = c # r" and c: "is_digit c"
    using assms(1) by (cases d1) (auto simp: all_digits_def)
  have a1: "list_all is_digit d1" using assms(1) by (simp add: all_digits_def)
  have s1: "dropWhile isspace_ascii (d1 @ CHR ''.'' # d2) = d1 @ CHR ''.'' # d2"
    using c by (simp add: d1 digit_not_special)
  have s2: "take_sign (d1 @ CHR ''.'' # d2) = (False, d1 @ CHR ''.'' # d2)"
    using c by (simp add: d1 take_sign_def digit_not_special)
  have t1: "takeWhile is_digit (d1 @ CHR ''.'' # d2) = d1"
    using all_digits_takeWhile [OF a1, of "CHR ''.'' # d2"] by (simp add: is_digit_iff)
  have t2: "dropWhile is_digit (d1 @ CHR ''.'' # d2) = CHR ''.'' # d2"
    using all_digits_dropWhile [OF a1, of "CHR ''.'' # d2"] by (simp add: is_digit_iff)
  have t3: "takeWhile is_digit d2 = d2" "dropWhile is_digit d2 = []"
    using assms(2) by (simp_all add: list_all_iff)
  have f: "take_fraction (CHR ''.'' # d2) = (d2, [])"
    by (simp add: take_fraction_def t3)
  have e: "take_exponent [] = (0, [])" by (simp add: take_exponent_def)
  have ne: "d1 \<noteq> []" by (simp add: d1)
  show ?thesis
    by (simp add: to_double_def s1 s2 t1 t2 f e scale10_def ne)
qed





section \<open>The first decimal number of a text\<close>

lemma match_here_SomeD:
  assumes "match_here s = Some m"
  shows "\<exists>d1 d2 post. s = m @ post \<and> m = d1 @ CHR ''.'' # d2 \<and> all_digits d1 \<and> all_digits d2
           \<and> (post = [] \<or> \<not> is_digit (hd post))"
proof -
  let ?d1 = "takeWhile is_digit s"
  let ?r1 = "dropWhile is_digit s"
  from assms have ne1: "?d1 \<noteq> []"
    by (auto simp: match_here_def Let_def split: if_splits)
  from assms ne1 obtain c r where r1: "?r1 = c # r"
    by (cases ?r1) (auto simp: match_here_def Let_def)
  let ?d2 = "takeWhile is_digit r"
  from assms ne1 r1 have c: "c = CHR ''.''" and ne2: "?d2 \<noteq> []" and m: "m = ?d1 @ CHR ''.'' # ?d2"
    by (auto simp: match_here_def Let_def split: if_splits)
  have s: "s = ?d1 @ CHR ''.'' # ?d2 @ dropWhile is_digit r"
    using takeWhile_dropWhile_id [of is_digit s] takeWhile_dropWhile_id [of is_digit r] r1 c
    by simp
  have a1: "all_digits ?d1" using ne1 by (auto simp: all_digits_def list_all_iff dest: set_takeWhileD)
  have a2: "all_digits ?d2" using ne2 by (auto simp: all_digits_def list_all_iff dest: set_takeWhileD)
  have p: "dropWhile is_digit r = [] \<or> \<not> is_digit (hd (dropWhile is_digit r))"
    using hd_dropWhile [of is_digit r] by blast
  show ?thesis using s m a1 a2 p by (intro exI [of _ ?d1] exI [of _ ?d2] exI [of _ "dropWhile is_digit r"]) simp
qed

lemma str_extract_SomeD:
  "str_extract s = Some m \<Longrightarrow>
   \<exists>pre d1 d2 post. s = pre @ m @ post \<and> m = d1 @ CHR ''.'' # d2 \<and> all_digits d1 \<and> all_digits d2
      \<and> (post = [] \<or> \<not> is_digit (hd post)) \<and> (\<forall>i<length pre. match_here (drop i s) = None)"
proof (induction s)
  case Nil
  then show ?case by simp
next
  case (Cons c cs)
  show ?case
  proof (cases "match_here (c # cs)")
    case None
    with Cons.prems have "str_extract cs = Some m" by simp
    from Cons.IH [OF this] obtain pre d1 d2 post where
      H: "cs = pre @ m @ post" "m = d1 @ CHR ''.'' # d2" "all_digits d1" "all_digits d2"
         "post = [] \<or> \<not> is_digit (hd post)" "\<forall>i<length pre. match_here (drop i cs) = None"
      by blast
    have "\<forall>i<length (c # pre). match_here (drop i (c # cs)) = None"
    proof (intro allI impI)
      fix i assume "i < length (c # pre)"
      then show "match_here (drop i (c # cs)) = None"
        using None H(6) by (cases i) auto
    qed
    with H show ?thesis
      by (intro exI [of _ "c # pre"] exI [of _ d1] exI [of _ d2] exI [of _ post]) simp
  next
    case (Some m')
    with Cons.prems have "m' = m" by simp
    with Some match_here_SomeD [of "c # cs" m] obtain d1 d2 post where
      "c # cs = m @ post" "m = d1 @ CHR ''.'' # d2" "all_digits d1" "all_digits d2"
      "post = [] \<or> \<not> is_digit (hd post)" by blast
    then show ?thesis
      by (intro exI [of _ "[]"] exI [of _ d1] exI [of _ d2] exI [of _ post]) simp
  qed
qed

lemma has_decimal_Cons: "has_decimal s \<Longrightarrow> has_decimal (c # s)"
  by (cases s rule: has_decimal.cases) auto

lemma has_decimal_prepend: "has_decimal s \<Longrightarrow> has_decimal (pre @ s)"
  by (induction pre) (auto simp: has_decimal_Cons)

lemma has_decimal_iff:
  "has_decimal s \<longleftrightarrow> (\<exists>pre a b post. s = pre @ a # CHR ''.'' # b # post \<and> is_digit a \<and> is_digit b)"
proof
  show "has_decimal s \<Longrightarrow> \<exists>pre a b post. s = pre @ a # CHR ''.'' # b # post \<and> is_digit a \<and> is_digit b"
  proof (induction s rule: has_decimal.induct)
    case (1 a b c r)
    show ?case
    proof (cases "is_digit a \<and> b = CHR ''.'' \<and> is_digit c")
      case True
      then show ?thesis by (intro exI [of _ "[]"] exI [of _ a] exI [of _ c] exI [of _ r]) simp
    next
      case False
      with 1 obtain pre x y post where "b # c # r = pre @ x # CHR ''.'' # y # post" "is_digit x" "is_digit y"
        by auto
      then show ?thesis by (intro exI [of _ "a # pre"] exI [of _ x] exI [of _ y] exI [of _ post]) simp
    qed
  qed simp_all
next
  assume "\<exists>pre a b post. s = pre @ a # CHR ''.'' # b # post \<and> is_digit a \<and> is_digit b"
  then obtain pre a b post where "s = pre @ a # CHR ''.'' # b # post" "is_digit a" "is_digit b" by blast
  then show "has_decimal s" by (simp add: has_decimal_prepend)
qed

lemma str_extract_has_decimal:
  assumes "str_extract s = Some m"
  shows "has_decimal s"
proof -
  from str_extract_SomeD [OF assms] obtain pre d1 d2 post where
    s: "s = pre @ m @ post" and m: "m = d1 @ CHR ''.'' # d2" and d: "all_digits d1" "all_digits d2"
    by blast
  from d obtain a b r where d1: "d1 = butlast d1 @ [a]" "is_digit a" and d2: "d2 = b # r" "is_digit b"
    by (cases d2; cases d1 rule: rev_cases) (auto simp: all_digits_def)
  have "s = (pre @ butlast d1) @ a # CHR ''.'' # b # (r @ post)"
    using s m d1(1) d2(1) by (metis append.assoc append_Cons append_Nil)
  then show ?thesis using d1(2) d2(2) has_decimal_iff by blast
qed

lemma has_decimal_str_extract: "has_decimal s \<Longrightarrow> str_extract s \<noteq> None"
proof (induction s rule: has_decimal.induct)
  case (1 a b c r)
  show ?case
  proof (cases "is_digit a \<and> b = CHR ''.'' \<and> is_digit c")
    case True
    then have "match_here (a # b # c # r) \<noteq> None"
      by (simp add: match_here_def Let_def is_digit_iff)
    then show ?thesis by (auto split: option.splits)
  next
    case False
    with 1 have "str_extract (b # c # r) \<noteq> None" by auto
    then show ?thesis by (simp split: option.splits)
  qed
qed simp_all

lemma str_extract_None_iff: "str_extract s = None \<longleftrightarrow> \<not> has_decimal s"
  using str_extract_has_decimal [of s] has_decimal_str_extract [of s]
  by (cases "str_extract s") auto

lemma load_hotels_row_dropped:
  assumes "clean_price (csv_price r) = NaN \<or> clean_rating (csv_rating r) = NaN"
  shows "load_hotels (xs @ r # ys) = load_hotels xs @ load_hotels ys"
  using assms by (auto simp: load_hotels_def dropna_def convert_row_def)

lemma clean_rating_decimal:
  assumes "str_extract s = Some m"
  shows "\<exists>pre d1 d2 post. s = pre @ m @ post \<and> m = d1 @ CHR ''.'' # d2 \<and> all_digits d1 \<and> all_digits d2
      \<and> (post = [] \<or> \<not> is_digit (hd post)) \<and> (\<forall>i<length pre. match_here (drop i s) = None)
      \<and> clean_rating (Some s) = Num (of_nat (digits_val (d1 @ d2)) / 10 ^ length d2)"
proof -
  from str_extract_SomeD [OF assms] obtain pre d1 d2 post where
    H: "s = pre @ m @ post" "m = d1 @ CHR ''.'' # d2" "all_digits d1" "all_digits d2"
       "post = [] \<or> \<not> is_digit (hd post)" "\<forall>i<length pre. match_here (drop i s) = None"
    by blast
  have "to_double m = Some (of_nat (digits_val (d1 @ d2)) / 10 ^ length d2)"
    using to_double_decimal [of d1 d2] H(2,3,4) by (simp add: all_digits_def)
  then have "clean_rating (Some s) = Num (of_nat (digits_val (d1 @ d2)) / 10 ^ length d2)"
    using assms by (simp add: clean_rating_def to_numeric_def)
  with H show ?thesis by blast
qed


section \<open>The cleaner\<close>



text \<open>
  Claim C3. For every rating text the cleaner takes the first substring made of digits,
  a point and digits (leftmost start, longest runs of digits) and reads it as the number
  it spells; a text without such a substring, and a missing cell, give NaN. In particular
  \<open>8.5 Excellent\<close> is read as 8.5, and a row whose rating is \<open>Excellent\<close> is not in the
  cleaned table.
\<close>

theorem rating_extraction:
  "clean_rating None = NaN \<and>
   (str_extract s = None \<longrightarrow> clean_rating (Some s) = NaN) \<and>
   (\<forall>m. str_extract s = Some m \<longrightarrow>
      (\<exists>pre d1 d2 post. s = pre @ m @ post \<and> m = d1 @ CHR ''.'' # d2 \<and>
         all_digits d1 \<and> all_digits d2 \<and> (post = [] \<or> \<not> is_digit (hd post)) \<and>
         (\<forall>i<length pre. match_here (drop i s) = None) \<and>
         clean_rating (Some s) = Num (of_nat (digits_val (d1 @ d2)) / 10 ^ length d2))) \<and>
   clean_rating (Some ''8.5 Excellent'') = Num (17 / 2) \<and>
   clean_rating (Some ''Excellent'') = NaN \<and>
   (csv_rating r = Some ''Excellent'' \<longrightarrow>
      load_hotels (xs @ r # ys) = load_hotels xs @ load_hotels ys)"
proof -
  have a: "clean_rating None = NaN" by (simp add: clean_rating_def)
  have b: "str_extract s = None \<longrightarrow> clean_rating (Some s) = NaN"
    by (simp add: clean_rating_def)
  have c: "\<forall>m. str_extract s = Some m \<longrightarrow>
      (\<exists>pre d1 d2 post. s = pre @ m @ post \<and> m = d1 @ CHR ''.'' # d2 \<and>
         all_digits d1 \<and> all_digits d2 \<and> (post = [] \<or> \<not> is_digit (hd post)) \<and>
         (\<forall>i<length pre. match_here (drop i s) = None) \<and>
         clean_rating (Some s) = Num (of_nat (digits_val (d1 @ d2)) / 10 ^ length d2))"
    using clean_rating_decimal [of s] by blast
  have d: "clean_rating (Some ''8.5 Excellent'') = Num (17 / 2)" by code_simp
  have e: "clean_rating (Some ''Excellent'') = NaN" by code_simp
  have f: "csv_rating r = Some ''Excellent'' \<longrightarrow>
      load_hotels (xs @ r # ys) = load_hotels xs @ load_hotels ys"
    using load_hotels_row_dropped [of r xs ys] e by auto
  from a b c d e f show ?thesis by blast
qed

theorem rating_extraction_witness:
  "str_extract ''8.5 Excellent'' = Some ''8.5'' \<and>
   clean_rating (Some ''8.5 Excellent'') = Num (of_nat (digits_val ''85'') / 10 ^ 1) \<and>
   str_extract ''Excellent'' = None \<and>
   clean_rating (Some ''Excellent'') = NaN \<and>
   load_hotels (take 1 example_rows @ excellent_row # drop 1 example_rows) = [hotel_A, hotel_B]"
proof -
  note T = rating_extraction [where s = "''8.5 Excellent''" and r = excellent_row
      and xs = "take 1 example_rows" and ys = "drop 1 example_rows"]
  note U = rating_extraction [where s = "''Excellent''"]
  have h1: "str_extract ''8.5 Excellent'' = Some ''8.5''" by code_simp
  have h2: "str_extract ''Excellent'' = None" by code_simp
  have h3: "csv_rating excellent_row = Some ''Excellent''" by (simp add: excellent_row_def)
  have l: "load_hotels (take 1 example_rows) @ load_hotels (drop 1 example_rows) = [hotel_A, hotel_B]"
    by code_simp
  from T h1 obtain pre d1 d2 post where
    m: "''8.5'' = d1 @ CHR ''.'' # d2" and ad: "all_digits d1" "all_digits d2" and
    v: "clean_rating (Some ''8.5 Excellent'') = Num (of_nat (digits_val (d1 @ d2)) / 10 ^ length d2)"
    by blast
  have nd: "\<not> is_digit CHR ''.''" by (simp add: is_digit_iff)
  from m ad nd have "d1 = ''8'' \<and> d2 = ''5''"
    by (cases d1; cases "tl d1") (auto simp: all_digits_def)
  with v have 2: "clean_rating (Some ''8.5 Excellent'') = Num (of_nat (digits_val ''85'') / 10 ^ 1)"
    by simp
  have 4: "clean_rating (Some ''Excellent'') = NaN" using U h2 by blast
  have "load_hotels (take 1 example_rows @ excellent_row # drop 1 example_rows)
      = load_hotels (take 1 example_rows) @ load_hotels (drop 1 example_rows)"
    using T h3 by blast
  then have 5:
    "load_hotels (take 1 example_rows @ excellent_row # drop 1 example_rows) = [hotel_A, hotel_B]"
    by (simp only: l)
  from h1 2 h2 4 5 show ?thesis by blast
qed

text \<open>
  Claim C10. A rating text in which no digit is followed by a point and a digit (for
  example \<open>9 Good\<close>, which holds a number without a decimal point) has no match of the
  pattern, so its rating is NaN and its row is not in the cleaned table.
\<close>

theorem rating_without_decimal_point_dropped:
  "(has_decimal s \<longleftrightarrow>
      (\<exists>pre a b post. s = pre @ a # CHR ''.'' # b # post \<and> is_digit a \<and> is_digit b)) \<and>
   (\<not> has_decimal s \<longrightarrow>
      str_extract s = None \<and> clean_rating (Some s) = NaN \<and>
      (csv_rating r = Some s \<longrightarrow> load_hotels (xs @ r # ys) = load_hotels xs @ load_hotels ys))"
proof -
  have "clean_rating (Some s) = NaN" if "str_extract s = None"
    using that by (simp add: clean_rating_def)
  then show ?thesis
    using has_decimal_iff [of s] str_extract_None_iff [of s] load_hotels_row_dropped [of r xs ys]
    by auto
qed

theorem rating_without_decimal_point_dropped_witness:
  "is_digit CHR ''9'' \<and> CHR ''9'' \<in> set ''9 Good'' \<and>
   str_extract ''9 Good'' = None \<and> clean_rating (Some ''9 Good'') = NaN \<and>
   load_hotels (take 1 example_rows @ nine_good_row # drop 1 example_rows) = [hotel_A, hotel_B]"
proof -
  note T = rating_without_decimal_point_dropped [where s = "''9 Good''" and r = nine_good_row
      and xs = "take 1 example_rows" and ys = "drop 1 example_rows"]
  have h1: "\<not> has_decimal ''9 Good''" by (simp add: is_digit_iff)
  have h2: "csv_rating nine_good_row = Some ''9 Good''" by (simp add: nine_good_row_def)
  have l: "load_hotels (take 1 example_rows) @ load_hotels (drop 1 example_rows) = [hotel_A, hotel_B]"
    by code_simp
  have d: "is_digit CHR ''9'' \<and> CHR ''9'' \<in> set ''9 Good''" by (simp add: is_digit_iff)
  from T h1 have 1: "str_extract ''9 Good'' = None" and 2: "clean_rating (Some ''9 Good'') = NaN"
    by blast+
  have "load_hotels (take 1 example_rows @ nine_good_row # drop 1 example_rows)
      = load_hotels (take 1 example_rows) @ load_hotels (drop 1 example_rows)"
    using T h1 h2 by blast
  then have 3:
    "load_hotels (take 1 example_rows @ nine_good_row # drop 1 example_rows) = [hotel_A, hotel_B]"
    by (simp only: l)
  from d 1 2 3 show ?thesis by blast
qed

section \<open>Sorting by rating\<close>

lemma mset_insert_desc: "mset (insert_desc x xs) = add_mset x (mset xs)"
  by (induction xs) auto

lemma set_insert_desc: "set (insert_desc x xs) = insert x (set xs)"
  by (induction xs) auto

lemma mset_foldr_insert_desc: "mset (foldr insert_desc xs []) = mset xs"
  by (induction xs) (simp_all add: mset_insert_desc)

lemma set_foldr_insert_desc: "set (foldr insert_desc xs []) = set xs"
  by (induction xs) (simp_all add: set_insert_desc)

lemma mset_sort_values_rating_desc: "mset (sort_values_rating_desc df) = mset df"
  by (simp add: sort_values_rating_desc_def mset_foldr_insert_desc)



lemma not_flt_fle: "a \<noteq> NaN \<Longrightarrow> b \<noteq> NaN \<Longrightarrow> \<not> flt a b \<Longrightarrow> fle b a"
  by (cases a; cases b) auto

lemma flt_fle: "flt a b \<Longrightarrow> fle a b"
  by (cases a; cases b) auto

lemma fle_trans: "fle a b \<Longrightarrow> fle b c \<Longrightarrow> fle a c"
  by (cases a; cases b; cases c) auto

lemma desc_order_fle: "a \<noteq> NaN \<Longrightarrow> b \<noteq> NaN \<Longrightarrow> desc_order a b = fle b a"
  by (cases a; cases b) auto

lemma sorted_insert_desc:
  assumes "rating x \<noteq> NaN" "\<forall>h \<in> set xs. rating h \<noteq> NaN"
    "sorted_wrt (\<lambda>a b. fle (rating b) (rating a)) xs"
  shows "sorted_wrt (\<lambda>a b. fle (rating b) (rating a)) (insert_desc x xs)"
  using assms
proof (induction xs)
  case Nil
  then show ?case by simp
next
  case (Cons y ys)
  show ?case
  proof (cases "flt (rating x) (rating y)")
    case True
    have 1: "sorted_wrt (\<lambda>a b. fle (rating b) (rating a)) (insert_desc x ys)"
      using Cons by simp
    have 2: "\<forall>h \<in> set ys. fle (rating h) (rating y)"
      using Cons.prems(3) by simp
    have 3: "fle (rating x) (rating y)" using True by (rule flt_fle)
    have "\<forall>h \<in> set (insert_desc x ys). fle (rating h) (rating y)"
      using 2 3 by (simp add: set_insert_desc)
    with 1 True show ?thesis by simp
  next
    case False
    have xy: "fle (rating y) (rating x)"
      using Cons.prems(1,2) False by (simp add: not_flt_fle)
    have ys: "\<forall>h \<in> set ys. fle (rating h) (rating y)"
      using Cons.prems(3) by simp
    have "\<forall>h \<in> set ys. fle (rating h) (rating x)"
    proof
      fix h assume "h \<in> set ys"
      with ys have "fle (rating h) (rating y)" by blast
      then show "fle (rating h) (rating x)" using xy by (rule fle_trans)
    qed
    with False Cons.prems(3) xy show ?thesis by simp
  qed
qed

lemma sorted_foldr_insert_desc:
  "\<forall>h \<in> set xs. rating h \<noteq> NaN \<Longrightarrow>
   sorted_wrt (\<lambda>a b. fle (rating b) (rating a)) (foldr insert_desc xs [])"
proof (induction xs)
  case Nil
  then show ?case by simp
next
  case (Cons x xs)
  have a: "\<forall>h \<in> set (foldr insert_desc xs []). rating h \<noteq> NaN"
    using Cons.prems by (simp add: set_foldr_insert_desc)
  have b: "sorted_wrt (\<lambda>a b. fle (rating b) (rating a)) (foldr insert_desc xs [])"
    using Cons by simp
  have c: "rating x \<noteq> NaN" using Cons.prems by simp
  show ?case using sorted_insert_desc [OF c a b] by simp
qed

lemma sorted_nan_rows: "sorted_wrt (\<lambda>a b. desc_order (rating a) (rating b)) (filter (\<lambda>h. rating h = NaN) df)"
  by (induction df) simp_all

lemma sorted_desc_of_fle:
  "\<forall>h \<in> set xs. rating h \<noteq> NaN \<Longrightarrow> sorted_wrt (\<lambda>a b. fle (rating b) (rating a)) xs \<Longrightarrow>
   sorted_wrt (\<lambda>a b. desc_order (rating a) (rating b)) xs"
  by (induction xs) (simp_all add: desc_order_fle)

lemma desc_order_NaN_right: "rating b = NaN \<Longrightarrow> desc_order (rating a) (rating b)"
  by simp

lemma sorted_sort_values_rating_desc:
  "sorted_wrt (\<lambda>a b. desc_order (rating a) (rating b)) (sort_values_rating_desc df)"
proof -
  let ?N = "filter (\<lambda>h. rating h \<noteq> NaN) df"
  let ?A = "foldr insert_desc ?N []"
  let ?B = "filter (\<lambda>h. rating h = NaN) df"
  have nn: "\<forall>h \<in> set ?A. rating h \<noteq> NaN"
    by (simp add: set_foldr_insert_desc)
  have nnN: "\<forall>h \<in> set ?N. rating h \<noteq> NaN"
    by simp
  have S: "sorted_wrt (\<lambda>a b. fle (rating b) (rating a)) ?A"
    using nnN by (rule sorted_foldr_insert_desc)
  have A: "sorted_wrt (\<lambda>a b. desc_order (rating a) (rating b)) ?A"
    using nn S by (rule sorted_desc_of_fle)
  have AB: "\<forall>a \<in> set ?A. \<forall>b \<in> set ?B. desc_order (rating a) (rating b)"
  proof (intro ballI)
    fix a b assume "b \<in> set ?B"
    then have "rating b = NaN" by simp
    then show "desc_order (rating a) (rating b)" by (rule desc_order_NaN_right)
  qed
  have "sorted_wrt (\<lambda>a b. desc_order (rating a) (rating b)) (?A @ ?B)"
    using A sorted_nan_rows [of df] AB by (simp only: sorted_wrt_append) 
  then show ?thesis by (simp only: sort_values_rating_desc_def)
qed

section \<open>The script's variables\<close>

lemma hotels_df_steps:
  "hotels_df (run_filters c e) = hotels_df e"
  "hotels_df (analysis1 e) = hotels_df e"
  "hotels_df (analysis2 e) = hotels_df e"
  "hotels_df (analysis3 e) = hotels_df e"
  "hotels_df (analysis4 e) = hotels_df e"
  "hotels_df (analysis5 e) = hotels_df e"
  "hotels_df (seaborn1 e) = hotels_df e"
  "hotels_df (seaborn2 e) = hotels_df e"
  "hotels_df (analysis6 e) = hotels_df e"
  by (simp_all add: run_filters_def analysis1_def analysis2_def analysis3_def analysis4_def
      analysis5_def seaborn1_def seaborn2_def analysis6_def Let_def)

lemma filtered_df_steps:
  "filtered_df (run_filters c e) = apply_filters c (hotels_df e)"
  "filtered_df (analysis1 e) = filtered_df e"
  "filtered_df (analysis2 e) = filtered_df e"
  "filtered_df (analysis3 e) = filtered_df e"
  "filtered_df (analysis4 e) = filtered_df e"
  "filtered_df (analysis5 e) = filtered_df e"
  "filtered_df (seaborn1 e) = filtered_df e"
  "filtered_df (seaborn2 e) = filtered_df e"
  "filtered_df (analysis6 e) = filtered_df e"
  by (simp_all add: run_filters_def analysis1_def analysis2_def analysis3_def analysis4_def
      analysis5_def seaborn1_def seaborn2_def analysis6_def Let_def)

lemma hotels_df_dashboard: "hotels_df (dashboard c e) = hotels_df e"
  by (simp only: dashboard_def hotels_df_steps)

lemma filtered_df_dashboard: "filtered_df (dashboard c e) = apply_filters c (hotels_df e)"
  by (simp only: dashboard_def filtered_df_steps)

text \<open>
  Claim C8. Filtering never changes the base table: the filter writes its result to a
  new table, \<open>filtered_df\<close>, which is the filter applied to the base table, and
  \<open>hotels_df\<close> is the same before and after the filter, after each chart builder, and
  after the whole run.
\<close>

theorem base_table_never_mutated:
  "hotels_df (run_filters c e) = hotels_df e \<and>
   hotels_df (analysis1 e) = hotels_df e \<and>
   hotels_df (analysis2 e) = hotels_df e \<and>
   hotels_df (analysis3 e) = hotels_df e \<and>
   hotels_df (analysis4 e) = hotels_df e \<and>
   hotels_df (analysis5 e) = hotels_df e \<and>
   hotels_df (seaborn1 e) = hotels_df e \<and>
   hotels_df (seaborn2 e) = hotels_df e \<and>
   hotels_df (analysis6 e) = hotels_df e \<and>
   hotels_df (dashboard c e) = hotels_df e \<and>
   filtered_df (dashboard c e) = apply_filters c (hotels_df e)"
  by (simp only: hotels_df_steps hotels_df_dashboard filtered_df_dashboard simp_thms)

theorem base_table_never_mutated_witness:
  "hotels_df (dashboard example_controls (startup example_rows)) = [hotel_A, hotel_B] \<and>
   filtered_df (dashboard example_controls (startup example_rows)) = [hotel_B]"
proof -
  note T = base_table_never_mutated [of example_controls "startup example_rows"]
  have s: "hotels_df (startup example_rows) = [hotel_A, hotel_B]"
    by (simp add: startup_def example_load)
  from T have 1: "hotels_df (dashboard example_controls (startup example_rows)) = hotels_df (startup example_rows)"
    and 2: "filtered_df (dashboard example_controls (startup example_rows))
        = apply_filters example_controls (hotels_df (startup example_rows))"
    by blast+
  from 1 2 show ?thesis by (simp only: s example_filtered simp_thms)
qed

section \<open>Means and the top rows\<close>















section \<open>What survives cleaning\<close>












section \<open>An empty filtered table\<close>







section \<open>The last bar chart\<close>

text \<open>
  The data of the last chart are all rows of the filtered table, sorted by rating in
  descending order, with the names as bar texts, and its layout orders the categories by
  their totals, smallest first.
\<close>

lemma fig_price_data:
  "xdata (fig_price df) = map (\<lambda>h. Txt (name h)) (sort_values_rating_desc df) \<and>
   ydata (fig_price df) = map (\<lambda>h. Val (rating h)) (sort_values_rating_desc df) \<and>
   textdata (fig_price df) = map (\<lambda>h. Txt (name h)) (sort_values_rating_desc df) \<and>
   kind (fig_price df) = Bar \<and> categoryorder (fig_price df) = TotalAscending \<and>
   mset (sort_values_rating_desc df) = mset df \<and>
   sorted_wrt (\<lambda>a b. desc_order (rating a) (rating b)) (sort_values_rating_desc df)"
  by (simp add: fig_price_def px_bar_def Let_def mset_sort_values_rating_desc
      sorted_sort_values_rating_desc)

text \<open>
  Claim C9 says that the eighth chart shows the hotels in descending order of rating. On
  the filtered table of the scenario with all prices selected, A rated 7 and B rated 9,
  the chart is given B before A, as line 159 sorts them, but the layout of line 168 sets
  \<open>categoryorder\<close> to \<open>total ascending\<close>, so the chart shows A before B, in ascending
  order of rating. The first chart, sorted the same way and without that layout, shows
  B before A.
\<close>

theorem ratings_chart_shown_ascending:
  "apply_filters all_controls (load_hotels example_rows) = [hotel_A, hotel_B] \<and>
   xdata (fig_price [hotel_A, hotel_B]) = [Txt (Some ''B''), Txt (Some ''A'')] \<and>
   ydata (fig_price [hotel_A, hotel_B]) = [Val (Num 9), Val (Num 7)] \<and>
   categoryorder (fig_price [hotel_A, hotel_B]) = TotalAscending \<and>
   shown_categories (fig_price [hotel_A, hotel_B]) = [Txt (Some ''A''), Txt (Some ''B'')] \<and>
   shown_categories (fig_top_rated (head 10 (sort_values_rating_desc [hotel_A, hotel_B])))
     = [Txt (Some ''B''), Txt (Some ''A'')]"
  by code_simp

end
